theory Spec2Isabelle
  imports Main
begin

section \<open>Data model\<close>

text \<open>
  Mongo ObjectIds are handled by the routes through their hexadecimal string
  (\<^verbatim>\<open>toString()\<close>), so an id is a string here.
\<close>

type_synonym objectid = string

subsection \<open>Signed tokens (the jsonwebtoken library)\<close>

text \<open>
  \<^verbatim>\<open>jwt.sign({ id }, secret, { expiresIn })\<close> with the default HS256 algorithm is a
  function of the payload, the secret and the clock second: the library adds
  \<^verbatim>\<open>iat = floor(Date.now() / 1000)\<close> and \<^verbatim>\<open>exp = iat + expiresIn\<close> and the MAC is
  deterministic. A token is therefore the tuple the signature binds; every other string a
  client may present is \<open>Opaque\<close>. The clock \<open>now\<close> is \<^verbatim>\<open>Date.now()\<close>, in milliseconds.
\<close>

datatype token =
    Jwt (t_key: string) (t_id: objectid) (t_iat: nat) (t_exp: nat)
  | Opaque string

datatype jwt_error = JsonWebTokenError | TokenExpiredError | SignError

definition jwt_sign :: "objectid \<Rightarrow> string \<Rightarrow> nat \<Rightarrow> nat \<Rightarrow> jwt_error + token" where
  "jwt_sign i secret expiresIn now =
     (if secret = [] then Inl SignError
      else Inr (Jwt secret i (now div 1000) (now div 1000 + expiresIn)))"

definition jwt_verify :: "token \<Rightarrow> string \<Rightarrow> nat \<Rightarrow> jwt_error + objectid" where
  "jwt_verify t secret now =
     (case t of
        Opaque s \<Rightarrow> Inl JsonWebTokenError
      | Jwt k i iat ex \<Rightarrow>
          if secret = [] then Inl JsonWebTokenError
          else if k \<noteq> secret then Inl JsonWebTokenError
          else if ex \<le> now div 1000 then Inl TokenExpiredError
          else Inr i)"

subsection \<open>Records of the collections\<close>

text \<open>The \<^verbatim>\<open>users\<close> collection (models/User.js).\<close>

record user =
  uid :: objectid
  name :: string
  email :: string
  password :: string
  role :: string
  schoolId :: "objectid option"
  isActive :: bool
  lastLogin :: nat
  refreshToken :: "token option"

text \<open>
  The legacy collections \<^verbatim>\<open>admins\<close> and \<^verbatim>\<open>school_admins\<close>. The Admin and the
  SchoolAdmin schema declare the same paths: \<^verbatim>\<open>name\<close> (optional), \<^verbatim>\<open>email\<close>,
  \<^verbatim>\<open>password\<close> (a bcrypt hash, required) and \<^verbatim>\<open>isDeleted\<close>; their reset-token paths
  play no part in the routes.
\<close>

record legacy =
  l_name :: "string option"
  l_email :: string
  l_password :: string
  l_isDeleted :: bool

text \<open>The \<^verbatim>\<open>schools\<close> collection, as far as onboarding writes it.\<close>

record school =
  s_id :: objectid
  s_name :: string
  s_board :: string
  s_adminName :: string
  s_adminEmail :: string
  s_adminPhone :: string
  s_address :: "string option"
  s_website :: "string option"
  s_description :: "string option"
  s_status :: string

record db =
  users :: "user list"
  admins :: "legacy list"
  school_admins :: "legacy list"
  schools :: "school list"

subsection \<open>Environment and external libraries\<close>

text \<open>
  \<^verbatim>\<open>process.env\<close>. An unset secret is the empty string (both are falsy). The two
  \<^verbatim>\<open>*_EXPIRES_IN\<close> variables hold the timespan they denote, in seconds, when set.
  \<^verbatim>\<open>ENABLE_CRUD_FOR_SCHOOL_ADMIN\<close> is the variable the README documents.
\<close>

record env =
  JWT_SECRET :: string
  JWT_EXPIRES_IN :: "nat option"
  JWT_REFRESH_SECRET :: string
  JWT_REFRESH_EXPIRES_IN :: "nat option"
  SUPER_ADMIN_EMAIL :: "string option"
  SUPER_ADMIN_PASSWORD :: "string option"
  ENABLE_CRUD_FOR_SCHOOL_ADMIN :: "string option"

text \<open>
  Library functions the routes call and whose code is not part of the repository:
  express-validator's \<^verbatim>\<open>isEmail\<close>, the regular expression of the \<^verbatim>\<open>email\<close> paths
  of the schemas, bcryptjs (\<^verbatim>\<open>hash\<close> takes the password and the randomness of the
  salt) and Mongoose's validation of a School document (the messages of the failed
  validators, in Mongoose's order).
\<close>

record ext =
  isEmail :: "string \<Rightarrow> bool"
  email_match :: "string \<Rightarrow> bool"
  bcrypt_hash :: "string \<Rightarrow> nat \<Rightarrow> string"
  bcrypt_compare :: "string \<Rightarrow> string \<Rightarrow> bool"
  school_errors :: "school \<Rightarrow> string list"

subsection \<open>Responses\<close>

record user_view =
  v_id :: objectid
  v_name :: string
  v_email :: string
  v_role :: string
  v_schoolId :: "objectid option"

text \<open>
  The JSON bodies: \<open>Message m\<close> is \<^verbatim>\<open>{ success: false, message: m }\<close>, \<open>Error m\<close> is
  \<^verbatim>\<open>{ success: false, error: m }\<close>, \<open>Plain m\<close> is the body of roleAuth.js
  (\<^verbatim>\<open>{ message: m, ... }\<close>, the informational fields left out), \<open>Session\<close> is
  \<^verbatim>\<open>{ success: true, token, refreshToken, user }\<close>, \<open>Tokens\<close> is
  \<^verbatim>\<open>{ success: true, token, refreshToken }\<close> and \<open>Profile\<close> is
  \<^verbatim>\<open>{ success: true, user }\<close>.
\<close>

datatype body =
    Message string
  | Error string
  | Plain string
  | Session token token user_view
  | Tokens token token
  | Profile user_view

datatype response = Response nat body

fun status :: "response \<Rightarrow> nat" where
  "status (Response c b) = c"

text \<open>JavaScript truthiness of an optional string, and \<^verbatim>\<open>a || b\<close>.\<close>

fun truthy :: "string option \<Rightarrow> bool" where
  "truthy None = False"
| "truthy (Some s) = (s \<noteq> [])"


section \<open>models/User.js\<close>

text \<open>\<^verbatim>\<open>process.env.JWT_EXPIRES_IN || '7d'\<close> and \<^verbatim>\<open>process.env.JWT_REFRESH_EXPIRES_IN || '30d'\<close>, in seconds.\<close>

definition access_ttl :: "env \<Rightarrow> nat" where
  "access_ttl e = (case JWT_EXPIRES_IN e of None \<Rightarrow> 7 * 24 * 3600 | Some n \<Rightarrow> n)"

definition refresh_ttl :: "env \<Rightarrow> nat" where
  "refresh_ttl e = (case JWT_REFRESH_EXPIRES_IN e of None \<Rightarrow> 30 * 24 * 3600 | Some n \<Rightarrow> n)"

definition getSignedJwtToken :: "env \<Rightarrow> user \<Rightarrow> nat \<Rightarrow> jwt_error + token" where
  "getSignedJwtToken e u now = jwt_sign (uid u) (JWT_SECRET e) (access_ttl e) now"

definition getRefreshToken :: "env \<Rightarrow> user \<Rightarrow> nat \<Rightarrow> jwt_error + token" where
  "getRefreshToken e u now = jwt_sign (uid u) (JWT_REFRESH_SECRET e) (refresh_ttl e) now"

definition findById :: "user list \<Rightarrow> objectid \<Rightarrow> user option" where
  "findById us i = find (\<lambda>u. uid u = i) us"

definition findOne :: "user list \<Rightarrow> string \<Rightarrow> user option" where
  "findOne us em = find (\<lambda>u. email u = em) us"

text \<open>\<^verbatim>\<open>String.prototype.trim\<close>, on the ASCII white space.\<close>

definition is_space :: "char \<Rightarrow> bool" where
  "is_space c = (c \<in> set [CHR '' '', CHR 0x09, CHR 0x0A, CHR 0x0B, CHR 0x0C, CHR 0x0D])"

definition trim :: "string \<Rightarrow> string" where
  "trim s = rev (dropWhile is_space (rev (dropWhile is_space s)))"

datatype db_error = ValidationError string | DuplicateKey

text \<open>
  The validators of the user schema, path by path, each with the message of the first
  validator that fails: \<^verbatim>\<open>required\<close> and \<^verbatim>\<open>maxlength\<close> of the name, \<^verbatim>\<open>required\<close> and
  \<^verbatim>\<open>match\<close> of the email, \<^verbatim>\<open>required\<close> and \<^verbatim>\<open>minlength\<close> of the password, \<^verbatim>\<open>enum\<close>
  of the role (with Mongoose's default message).
\<close>

definition name_errors :: "string \<Rightarrow> string list" where
  "name_errors n =
     (if n = [] then [''Please add a name'']
      else if 50 < length n then [''Name cannot be more than 50 characters'']
      else [])"

definition email_errors :: "ext \<Rightarrow> string \<Rightarrow> string list" where
  "email_errors x em =
     (if em = [] then [''Please add an email'']
      else if \<not> email_match x em then [''Please add a valid email'']
      else [])"

definition password_errors :: "string \<Rightarrow> string list" where
  "password_errors pw =
     (if pw = [] then [''Please add a password'']
      else if length pw < 6 then [''Password must be at least 6 characters'']
      else [])"

definition role_errors :: "string \<Rightarrow> string list" where
  "role_errors rl =
     (if rl \<in> set [''super_admin'', ''school_admin''] then []
      else [[CHR 0x60] @ rl @ [CHR 0x60] @ '' is not a valid enum value for path '' @
            [CHR 0x60] @ ''role'' @ [CHR 0x60] @ ''.''])"

text \<open>
  The validation that \<^verbatim>\<open>save()\<close> runs on a document loaded from the collection: every
  loaded path is validated, changed or not. \<open>sel\<close> tells whether the password was
  selected by the query (\<^verbatim>\<open>select('+password')\<close>). The messages are taken in the order of
  the schema.
\<close>

definition user_errors :: "ext \<Rightarrow> bool \<Rightarrow> user \<Rightarrow> string list" where
  "user_errors x sel u =
     name_errors (name u) @ email_errors x (email u) @
     (if sel then password_errors (password u) else []) @ role_errors (role u)"

text \<open>The write of a save: the document of the same \<^verbatim>\<open>_id\<close> is replaced.\<close>

definition write_back :: "user \<Rightarrow> user list \<Rightarrow> user list" where
  "write_back u us = map (\<lambda>v. if uid v = uid u then u else v) us"

text \<open>
  \<^verbatim>\<open>doc.save()\<close> of a loaded document whose password is unchanged: the validation, which
  throws a \<^verbatim>\<open>ValidationError\<close>, then the \<^verbatim>\<open>pre('save')\<close> hook, which calls \<^verbatim>\<open>next()\<close>,
  then the write. The hook has no \<^verbatim>\<open>return\<close> after \<^verbatim>\<open>next()\<close>: it goes on, detached
  from this save, to hash the password of the document in memory once more. That reaches
  the collection only if the same document is saved again after the hash has finished,
  which the login route may do (see \<open>finish_login\<close>); a document loaded without its
  password has nothing to hash.
\<close>

definition save :: "ext \<Rightarrow> bool \<Rightarrow> user \<Rightarrow> user list \<Rightarrow> db_error + user list" where
  "save x sel u us =
     (case user_errors x sel u of
        m # ms \<Rightarrow> Inl (ValidationError m)
      | [] \<Rightarrow> Inr (write_back u us))"

section \<open>middleware/auth.js\<close>

text \<open>
  The \<^verbatim>\<open>Authorization\<close> header: absent, not starting with \<^verbatim>\<open>Bearer\<close>, or starting
  with it, with \<^verbatim>\<open>split(' ')[1]\<close> as the token (\<open>None\<close> when there is no second field).
\<close>

datatype authorization = NoHeader | NotBearer string | Bearer "token option"

text \<open>
  \<open>Inr u\<close>: \<^verbatim>\<open>req.user = u\<close> and \<^verbatim>\<open>next()\<close> is called; \<open>Inl r\<close>: the response \<open>r\<close> is sent.
  The projection \<^verbatim>\<open>select('-password')\<close> is not modelled: no later middleware or handler
  reads the password of \<^verbatim>\<open>req.user\<close>.
\<close>

definition protect :: "env \<Rightarrow> nat \<Rightarrow> db \<Rightarrow> authorization \<Rightarrow> response + user" where
  "protect e now d h =
     (case h of
        Bearer (Some t) \<Rightarrow>
          (case jwt_verify t (JWT_SECRET e) now of
             Inl err \<Rightarrow> Inl (Response 401 (Error ''Not authorized, token failed''))
           | Inr i \<Rightarrow>
               (case findById (users d) i of
                  None \<Rightarrow> Inl (Response 401 (Error ''User not found''))
                | Some u \<Rightarrow> Inr u))
      | Bearer None \<Rightarrow> Inl (Response 401 (Error ''Not authorized, token failed''))
      | _ \<Rightarrow> Inl (Response 401 (Error ''Not authorized, no token'')))"

section \<open>middleware/roleAuth.js\<close>

record request =
  req_user :: "user option"
  params_schoolId :: "string option"
  body_schoolId :: "string option"
  query_schoolId :: "string option"
  req_method :: string

text \<open>
  A middleware either calls \<^verbatim>\<open>next()\<close> or sends a response. \<^verbatim>\<open>process.env\<close> is in scope
  of each of them, hence the parameter; none of the three below reads it.
\<close>

datatype mw = Next | Respond response



definition canPerformCRUD :: "env \<Rightarrow> request \<Rightarrow> mw" where
  "canPerformCRUD e r =
     (case req_user r of
        None \<Rightarrow> Respond (Response 401 (Plain ''Authentication required''))
      | Some u \<Rightarrow>
          if role u \<noteq> ''super_admin''
          then Respond (Response 403
                 (Plain ''Access denied. CRUD operations are restricted to super admins only.''))
          else Next)"


section \<open>The list and search routes of routes/students.js and routes/schools.js\<close>





section \<open>routes/auth.js\<close>

subsection \<open>Documents of the users collection\<close>

text \<open>
  The validators of the user schema, on the values after the setters (\<^verbatim>\<open>trim\<close> on
  \<^verbatim>\<open>name\<close>): \<^verbatim>\<open>required\<close> and \<^verbatim>\<open>maxlength\<close> of the name, \<^verbatim>\<open>required\<close> and
  \<^verbatim>\<open>match\<close> of the email, \<^verbatim>\<open>required\<close> and \<^verbatim>\<open>minlength\<close> of the password, \<^verbatim>\<open>enum\<close>
  of the role.
\<close>

definition user_valid :: "ext \<Rightarrow> string \<Rightarrow> string \<Rightarrow> string \<Rightarrow> string \<Rightarrow> bool" where
  "user_valid x n em pw rl =
     (trim n \<noteq> [] \<and> length (trim n) \<le> 50 \<and> em \<noteq> [] \<and> email_match x em \<and>
      pw \<noteq> [] \<and> 6 \<le> length pw \<and> rl \<in> set [''super_admin'', ''school_admin''])"

text \<open>
  \<^verbatim>\<open>User.create({ name, email, password, role })\<close>: validation, then the
  \<^verbatim>\<open>pre('save')\<close> hook, which hashes the modified password with a fresh salt, then the
  insert, which the unique indexes on \<^verbatim>\<open>_id\<close> and \<^verbatim>\<open>email\<close> may refuse. \<open>newId\<close> is
  the generated ObjectId, \<open>salt\<close> the randomness of \<^verbatim>\<open>bcrypt.genSalt\<close>.
\<close>

definition User_create ::
  "ext \<Rightarrow> nat \<Rightarrow> nat \<Rightarrow> objectid \<Rightarrow> user list \<Rightarrow> string \<Rightarrow> string \<Rightarrow> string \<Rightarrow> string
     \<Rightarrow> db_error + (user \<times> user list)" where
  "User_create x now salt newId us n em pw rl =
     (if \<not> user_valid x n em pw rl then Inl (ValidationError ''User validation failed'')
      else
        let u = \<lparr> uid = newId, name = trim n, email = em, password = bcrypt_hash x pw salt,
                  role = rl, schoolId = None, isActive = True, lastLogin = now,
                  refreshToken = None \<rparr>
        in if find (\<lambda>v. uid v = newId \<or> email v = em) us \<noteq> None then Inl DuplicateKey
           else Inr (u, us @ [u]))"

text \<open>
  \<^verbatim>\<open>User.findOneAndUpdate({ email: key }, { name, email, password, role, isActive: true },
  { upsert: true, new: true, setDefaultsOnInsert: true })\<close>: no validation and no
  \<^verbatim>\<open>save\<close> hook; the setter of \<^verbatim>\<open>name\<close> runs on the update.
\<close>

definition upsert ::
  "nat \<Rightarrow> objectid \<Rightarrow> user list \<Rightarrow> string \<Rightarrow> string \<Rightarrow> string \<Rightarrow> string \<Rightarrow> string
     \<Rightarrow> db_error + (user \<times> user list)" where
  "upsert now newId us key n em pw rl =
     (case findOne us key of
        Some u \<Rightarrow>
          let u' = u\<lparr> name := trim n, email := em, password := pw, role := rl, isActive := True \<rparr>
          in Inr (u', write_back u' us)
      | None \<Rightarrow>
          let u = \<lparr> uid = newId, name = trim n, email = em, password = pw, role = rl,
                    schoolId = None, isActive = True, lastLogin = now, refreshToken = None \<rparr>
          in if findById us newId \<noteq> None then Inl DuplicateKey else Inr (u, us @ [u]))"

definition user_json :: "user \<Rightarrow> user_view" where
  "user_json u =
     \<lparr> v_id = uid u, v_name = name u, v_email = email u, v_role = role u,
       v_schoolId = schoolId u \<rparr>"

text \<open>
  The end of register: both tokens are signed, the refresh token is stored on the user
  and the session is returned with status \<open>code\<close>. A \<^verbatim>\<open>jwt.sign\<close> that throws lands in
  the \<^verbatim>\<open>catch\<close> of the route. The document is the one \<^verbatim>\<open>User.create\<close> has just validated
  and inserted: its name and email are unchanged and its password is by now a bcrypt hash
  (60 characters), so the validation of this second save passes and the save is its
  write. The hook's detached hash is never written, the document is not saved again.
\<close>

definition issue_session ::
  "env \<Rightarrow> nat \<Rightarrow> nat \<Rightarrow> user \<Rightarrow> user list \<Rightarrow> response \<times> user list" where
  "issue_session e now code u us =
     (case getSignedJwtToken e u now of
        Inl err \<Rightarrow> (Response 500 (Message ''Server error''), us)
      | Inr t \<Rightarrow>
          (case getRefreshToken e u now of
             Inl err \<Rightarrow> (Response 500 (Message ''Server error''), us)
           | Inr rt \<Rightarrow>
               let u' = u\<lparr> refreshToken := Some rt \<rparr>
               in (Response code (Session t rt (user_json u')), write_back u' us)))"

subsection \<open>POST /register\<close>

text \<open>
  The validators of the body, the uniqueness check on the collection that \<^verbatim>\<open>target\<close>
  names, then the creation. \<^verbatim>\<open>Admin.create\<close> is taken to succeed (it runs only after
  \<^verbatim>\<open>Admin.findOne({ email })\<close> has found nothing).
\<close>

record register_body =
  rb_name :: string
  rb_email :: string
  rb_password :: string
  rb_role :: "string option"
  rb_target :: "string option"

definition register ::
  "ext \<Rightarrow> env \<Rightarrow> nat \<Rightarrow> nat \<Rightarrow> objectid \<Rightarrow> db \<Rightarrow> register_body \<Rightarrow> response \<times> db" where
  "register x e now salt newId d b =
     (if length (rb_name b) < 2 then (Response 400 (Message ''Name is required''), d)
      else if \<not> isEmail x (rb_email b)
        then (Response 400 (Message ''Valid email is required''), d)
      else if length (rb_password b) < 6
        then (Response 400 (Message ''Password must be at least 6 characters''), d)
      else if rb_role b \<noteq> None \<and> rb_role b \<notin> set [Some ''super_admin'', Some ''school_admin'']
        then (Response 400 (Message ''Invalid role''), d)
      else if rb_target b \<noteq> None \<and> rb_target b \<notin> set [Some ''users'', Some ''admins'']
        then (Response 400 (Message ''Invalid target store''), d)
      else
        let rl = (case rb_role b of None \<Rightarrow> ''school_admin'' | Some r \<Rightarrow> r);
            target = (case rb_target b of None \<Rightarrow> ''users'' | Some t \<Rightarrow> t)
        in
        if target = ''admins'' \<and> find (\<lambda>a. l_email a = rb_email b) (admins d) \<noteq> None
          then (Response 400 (Message ''Email already registered (admins)''), d)
        else if target \<noteq> ''admins'' \<and> findOne (users d) (rb_email b) \<noteq> None
          then (Response 400 (Message ''Email already registered''), d)
        else
          (case User_create x now salt newId (users d) (rb_name b) (rb_email b)
                  (rb_password b) rl of
             Inl err \<Rightarrow> (Response 500 (Message ''Server error''), d)
           | Inr (u, us) \<Rightarrow>
               let d1 = (if target = ''admins''
                         then d\<lparr> users := us,
                                 admins := admins d @
                                   [\<lparr> l_name = Some (rb_name b), l_email = rb_email b,
                                      l_password = password u, l_isDeleted = False \<rparr>] \<rparr>
                         else d\<lparr> users := us \<rparr>);
                   (resp, us') = issue_session e now 201 u (users d1)
               in (resp, d1\<lparr> users := us' \<rparr>)))"

subsection \<open>POST /login\<close>

text \<open>\<^verbatim>\<open>findOne({ email, isDeleted: { $ne: true } })\<close> on a legacy collection.\<close>

definition find_legacy :: "legacy list \<Rightarrow> string \<Rightarrow> legacy option" where
  "find_legacy ls em = find (\<lambda>a. l_email a = em \<and> \<not> l_isDeleted a) ls"

text \<open>\<^verbatim>\<open>a.name || dflt\<close>\<close>

definition name_or :: "legacy \<Rightarrow> string \<Rightarrow> string" where
  "name_or a dflt =
     (case l_name a of None \<Rightarrow> dflt | Some n \<Rightarrow> if n = [] then dflt else n)"

text \<open>
  After a user has been resolved, with its password selected: \<^verbatim>\<open>updateLastLogin()\<close>,
  which is a first save, then the two tokens, then a second save of the same document
  with the refresh token. Both saves validate the document. \<open>rehash\<close> is the schedule of
  the hash that the hook of the first save left running: \<open>None\<close> when it has not finished
  as the second save begins, so that the second save writes the refresh token only;
  \<open>Some (s1, s2)\<close> when it has finished, with salt \<open>s1\<close>. The second save then validates
  and finds a modified password, its hook hashes it once more, with salt \<open>s2\<close>, and the
  write stores that hash.
\<close>

definition finish_login ::
  "ext \<Rightarrow> env \<Rightarrow> nat \<Rightarrow> (nat \<times> nat) option \<Rightarrow> db \<Rightarrow> user \<Rightarrow> user list \<Rightarrow> response \<times> db" where
  "finish_login x e now rehash d u us =
     (let u1 = u\<lparr> lastLogin := now \<rparr> in
      case save x True u1 us of
        Inl err \<Rightarrow> (Response 500 (Message ''Server error''), d\<lparr> users := us \<rparr>)
      | Inr us1 \<Rightarrow>
          (case getSignedJwtToken e u1 now of
             Inl err \<Rightarrow> (Response 500 (Message ''Server error''), d\<lparr> users := us1 \<rparr>)
           | Inr t \<Rightarrow>
               (case getRefreshToken e u1 now of
                  Inl err \<Rightarrow> (Response 500 (Message ''Server error''), d\<lparr> users := us1 \<rparr>)
                | Inr rt \<Rightarrow>
                    let u2 = u1\<lparr> refreshToken := Some rt \<rparr> in
                    (case rehash of
                       None \<Rightarrow>
                         (case save x True u2 us1 of
                            Inl err \<Rightarrow>
                              (Response 500 (Message ''Server error''), d\<lparr> users := us1 \<rparr>)
                          | Inr us2 \<Rightarrow>
                              (Response 200 (Session t rt (user_json u2)),
                               d\<lparr> users := us2 \<rparr>))
                     | Some (s1, s2) \<Rightarrow>
                         let u3 = u2\<lparr> password := bcrypt_hash x (password u2) s1 \<rparr> in
                         (case user_errors x True u3 of
                            m # ms \<Rightarrow>
                              (Response 500 (Message ''Server error''), d\<lparr> users := us1 \<rparr>)
                          | [] \<Rightarrow>
                              let u4 = u3\<lparr> password := bcrypt_hash x (password u3) s2 \<rparr>
                              in (Response 200 (Session t rt (user_json u4)),
                                  d\<lparr> users := write_back u4 us1 \<rparr>))))))"

text \<open>
  The fallback on one legacy collection: the record found there decides. \<open>rl\<close> is the
  role and \<open>dflt\<close> the default name that the route gives to users of this collection.
  The upsert runs no validator; the saves of \<open>finish_login\<close> do, on the upserted document.
\<close>

definition materialize ::
  "ext \<Rightarrow> env \<Rightarrow> nat \<Rightarrow> (nat \<times> nat) option \<Rightarrow> objectid \<Rightarrow> db \<Rightarrow> string \<Rightarrow> legacy \<Rightarrow> string
     \<Rightarrow> string \<Rightarrow> response \<times> db" where
  "materialize x e now rehash newId d pw a dflt rl =
     (if \<not> bcrypt_compare x pw (l_password a)
      then (Response 401 (Message ''Invalid credentials''), d)
      else
        (case upsert now newId (users d) (l_email a) (name_or a dflt) (l_email a)
                (l_password a) rl of
           Inl err \<Rightarrow> (Response 500 (Message ''Server error''), d)
         | Inr (u, us) \<Rightarrow> finish_login x e now rehash d u us))"

definition is_env_super_admin :: "env \<Rightarrow> string \<Rightarrow> string \<Rightarrow> bool" where
  "is_env_super_admin e em pw =
     (truthy (SUPER_ADMIN_EMAIL e) \<and> truthy (SUPER_ADMIN_PASSWORD e) \<and>
      Some em = SUPER_ADMIN_EMAIL e \<and> Some pw = SUPER_ADMIN_PASSWORD e)"

text \<open>
  The session of the environment super admin: the mirror comes back from the upsert
  without its password, the tokens are signed and the mirror is saved once.
\<close>

definition mirror_session ::
  "ext \<Rightarrow> env \<Rightarrow> nat \<Rightarrow> user \<Rightarrow> user list \<Rightarrow> response \<times> user list" where
  "mirror_session x e now mirror us =
     (case getSignedJwtToken e mirror now of
        Inl err \<Rightarrow> (Response 500 (Message ''Server error''), us)
      | Inr t \<Rightarrow>
          (case getRefreshToken e mirror now of
             Inl err \<Rightarrow> (Response 500 (Message ''Server error''), us)
           | Inr rt \<Rightarrow>
               let u' = mirror\<lparr> refreshToken := Some rt \<rparr> in
               (case save x False u' us of
                  Inl err \<Rightarrow> (Response 500 (Message ''Server error''), us)
                | Inr us' \<Rightarrow> (Response 200 (Session t rt (user_json u')), us'))))"

definition login ::
  "ext \<Rightarrow> env \<Rightarrow> nat \<Rightarrow> nat \<Rightarrow> (nat \<times> nat) option \<Rightarrow> objectid \<Rightarrow> db \<Rightarrow> string \<Rightarrow> string
     \<Rightarrow> response \<times> db" where
  "login x e now salt rehash newId d em pw =
     (if \<not> isEmail x em then (Response 400 (Message ''Please provide a valid email''), d)
      else if length pw < 6
        then (Response 400 (Message ''Password must be at least 6 characters long''), d)
      else if is_env_super_admin e em pw then
        (case upsert now newId (users d) em ''Super Admin'' em (bcrypt_hash x pw salt)
                ''super_admin'' of
           Inl err \<Rightarrow> (Response 500 (Message ''Server error''), d)
         | Inr (mirror, us) \<Rightarrow>
             let (resp, us') = mirror_session x e now mirror us
             in (resp, d\<lparr> users := us' \<rparr>))
      else
        (case findOne (users d) em of
           Some u \<Rightarrow>
             if \<not> isActive u then (Response 401 (Message ''Account is deactivated''), d)
             else if \<not> bcrypt_compare x pw (password u)
               then (Response 401 (Message ''Invalid credentials''), d)
             else finish_login x e now rehash d u (users d)
         | None \<Rightarrow>
             (case find_legacy (admins d) em of
                Some a \<Rightarrow> materialize x e now rehash newId d pw a ''Admin'' ''super_admin''
              | None \<Rightarrow>
                  (case find_legacy (school_admins d) em of
                     Some a \<Rightarrow>
                       materialize x e now rehash newId d pw a ''School Admin'' ''school_admin''
                   | None \<Rightarrow> (Response 401 (Message ''Invalid credentials''), d)))))"

subsection \<open>POST /refresh\<close>

text \<open>
  The first \<^verbatim>\<open>/refresh\<close> route of the router; it answers every request, so the second
  one registered further down is never reached. \<open>None\<close> is a body without the field.
  The user is loaded without its password and saved once; a \<^verbatim>\<open>ValidationError\<close> of
  that save is neither of the two token errors and gets the 500 of the \<^verbatim>\<open>catch\<close>.
\<close>

definition refresh :: "ext \<Rightarrow> env \<Rightarrow> nat \<Rightarrow> db \<Rightarrow> token option \<Rightarrow> response \<times> db" where
  "refresh x e now d presented =
     (case presented of
        None \<Rightarrow> (Response 400 (Error ''Refresh token is required''), d)
      | Some t \<Rightarrow>
          if t = Opaque [] then (Response 400 (Error ''Refresh token is required''), d)
          else
            (case jwt_verify t (JWT_REFRESH_SECRET e) now of
               Inl JsonWebTokenError \<Rightarrow> (Response 401 (Error ''Invalid refresh token''), d)
             | Inl TokenExpiredError \<Rightarrow> (Response 401 (Error ''Refresh token expired''), d)
             | Inl SignError \<Rightarrow> (Response 500 (Error ''Server error''), d)
             | Inr i \<Rightarrow>
                 (case findById (users d) i of
                    None \<Rightarrow> (Response 401 (Error ''Invalid refresh token''), d)
                  | Some u \<Rightarrow>
                      if refreshToken u \<noteq> Some t
                      then (Response 401 (Error ''Invalid refresh token''), d)
                      else
                        (case getSignedJwtToken e u now of
                           Inl err \<Rightarrow> (Response 500 (Error ''Server error''), d)
                         | Inr newToken \<Rightarrow>
                             (case getRefreshToken e u now of
                                Inl err \<Rightarrow> (Response 500 (Error ''Server error''), d)
                              | Inr newRefreshToken \<Rightarrow>
                                  (case save x False
                                          (u\<lparr> refreshToken := Some newRefreshToken \<rparr>)
                                          (users d) of
                                     Inl err \<Rightarrow> (Response 500 (Error ''Server error''), d)
                                   | Inr us \<Rightarrow>
                                       (Response 200 (Tokens newToken newRefreshToken),
                                        d\<lparr> users := us \<rparr>)))))))"

subsection \<open>POST /onboarding\<close>

record onboarding_body =
  ob_schoolName :: string
  ob_board :: string
  ob_adminName :: string
  ob_adminEmail :: string
  ob_adminPhone :: string
  ob_schoolAddress :: "string option"
  ob_website :: "string option"
  ob_description :: "string option"

text \<open>\<^verbatim>\<open>adminPhone.toString().replace(/[^+\d]/g, '')\<close>\<close>

definition sanitizedPhone :: "string \<Rightarrow> string" where
  "sanitizedPhone p = filter (\<lambda>c. c = CHR ''+'' \<or> c \<in> set ''0123456789'') p"

definition safeBoard :: "string \<Rightarrow> string" where
  "safeBoard b =
     (if b \<in> set [''CBSE'', ''ICSE'', ''State Board'', ''IB'', ''Cambridge'', ''Other'']
      then b else ''Other'')"

text \<open>
  \<^verbatim>\<open>School.create\<close>: the document the route builds (an address given as a string becomes
  its street; falsy optional fields are left out), Mongoose's validation, then the insert
  under the unique indexes on \<^verbatim>\<open>_id\<close> and \<^verbatim>\<open>name\<close>. \<open>newId\<close> is the generated ObjectId.
\<close>

definition school_doc :: "objectid \<Rightarrow> onboarding_body \<Rightarrow> school" where
  "school_doc newId b =
     \<lparr> s_id = newId, s_name = trim (ob_schoolName b), s_board = safeBoard (ob_board b),
       s_adminName = trim (ob_adminName b), s_adminEmail = ob_adminEmail b,
       s_adminPhone = sanitizedPhone (ob_adminPhone b),
       s_address = (if truthy (ob_schoolAddress b) then ob_schoolAddress b else None),
       s_website = (if truthy (ob_website b) then ob_website b else None),
       s_description = (if truthy (ob_description b) then ob_description b else None),
       s_status = ''active'' \<rparr>"

definition School_create ::
  "ext \<Rightarrow> objectid \<Rightarrow> school list \<Rightarrow> onboarding_body \<Rightarrow> db_error + (school \<times> school list)" where
  "School_create x newId ss b =
     (let s = school_doc newId b in
      case school_errors x s of
        m # ms \<Rightarrow> Inl (ValidationError m)
      | [] \<Rightarrow>
          if find (\<lambda>t. s_id t = newId \<or> s_name t = s_name s) ss \<noteq> None then Inl DuplicateKey
          else Inr (s, ss @ [s]))"

text \<open>
  The route: \<^verbatim>\<open>protect\<close>, the validators of the body, then the handler. The school is
  created first; the user is then loaded again by id, its \<^verbatim>\<open>schoolId\<close> and (for a
  non-blank admin name) its \<^verbatim>\<open>name\<close> are assigned, and it is saved; a
  \<^verbatim>\<open>ValidationError\<close> of that save is answered with 400 and its first message, and the
  school stays created.
\<close>

definition onboarding ::
  "ext \<Rightarrow> env \<Rightarrow> nat \<Rightarrow> objectid \<Rightarrow> db \<Rightarrow> authorization \<Rightarrow> onboarding_body \<Rightarrow> response \<times> db" where
  "onboarding x e now newId d h b =
     (case protect e now d h of
        Inl r \<Rightarrow> (r, d)
      | Inr ru \<Rightarrow>
          if ob_schoolName b = [] then (Response 400 (Message ''School name is required''), d)
          else if ob_board b = [] then (Response 400 (Message ''Board is required''), d)
          else if ob_adminName b = [] then (Response 400 (Message ''Admin name is required''), d)
          else if \<not> isEmail x (ob_adminEmail b)
            then (Response 400 (Message ''Valid admin email is required''), d)
          else if ob_adminPhone b = [] then (Response 400 (Message ''Admin phone is required''), d)
          else
            (case School_create x newId (schools d) b of
               Inl (ValidationError m) \<Rightarrow>
                 (Response 400 (Message (if m = [] then ''Validation error'' else m)), d)
             | Inl DuplicateKey \<Rightarrow> (Response 500 (Message ''Server error''), d)
             | Inr (s, ss) \<Rightarrow>
                 let d1 = d\<lparr> schools := ss \<rparr> in
                 (case findById (users d1) (uid ru) of
                    None \<Rightarrow> (Response 500 (Message ''Server error''), d1)
                  | Some u0 \<Rightarrow>
                      let n = (if trim (ob_adminName b) \<noteq> [] then trim (ob_adminName b)
                               else name u0);
                          u = u0\<lparr> schoolId := Some (s_id s), name := n \<rparr>
                      in (case save x False u (users d1) of
                            Inl (ValidationError m) \<Rightarrow>
                              (Response 400
                                 (Message (if m = [] then ''Validation error'' else m)), d1)
                          | Inl DuplicateKey \<Rightarrow> (Response 500 (Message ''Server error''), d1)
                          | Inr us \<Rightarrow>
                              (Response 200 (Profile (user_json u)),
                               d1\<lparr> users := us \<rparr>)))))"

section \<open>Example data\<close>

definition env0 :: env where
  "env0 = \<lparr> JWT_SECRET = ''access-secret'', JWT_EXPIRES_IN = None,
            JWT_REFRESH_SECRET = ''refresh-secret'', JWT_REFRESH_EXPIRES_IN = None,
            SUPER_ADMIN_EMAIL = None, SUPER_ADMIN_PASSWORD = None,
            ENABLE_CRUD_FOR_SCHOOL_ADMIN = None \<rparr>"

definition ext0 :: ext where
  "ext0 = \<lparr> isEmail = (\<lambda>s. CHR ''@'' \<in> set s), email_match = (\<lambda>s. CHR ''@'' \<in> set s),
            bcrypt_hash = (\<lambda>p salt. ''$2a$'' @ p), bcrypt_compare = (\<lambda>p h. h = ''$2a$'' @ p),
            school_errors = (\<lambda>s. []) \<rparr>"

definition alice :: user where
  "alice = \<lparr> uid = ''u1'', name = ''Alice'', email = ''alice@x.io'', password = ''$2a$secret1'',
             role = ''school_admin'', schoolId = Some ''t1'', isActive = True, lastLogin = 0,
             refreshToken = None \<rparr>"

definition dave :: user where
  "dave = \<lparr> uid = ''u4'', name = ''Dave'', email = ''dave@x.io'', password = ''$2a$secret4'',
            role = ''school_admin'', schoolId = Some ''t1'', isActive = False, lastLogin = 0,
            refreshToken = None \<rparr>"

definition db_empty :: db where
  "db_empty = \<lparr> users = [], admins = [], school_admins = [], schools = [] \<rparr>"

definition db_alice :: db where
  "db_alice = \<lparr> users = [alice], admins = [], school_admins = [], schools = [] \<rparr>"

definition db_dave :: db where
  "db_dave = \<lparr> users = [dave], admins = [], school_admins = [], schools = [] \<rparr>"


definition reg_body :: "string option \<Rightarrow> string option \<Rightarrow> register_body" where
  "reg_body r t = \<lparr> rb_name = ''Al'', rb_email = ''alice@x.io'', rb_password = ''secret1'',
                    rb_role = r, rb_target = t \<rparr>"

definition carol :: user where
  "carol = \<lparr> uid = ''u3'', name = ''Carol'', email = ''carol@x.io'', password = ''$2a$secret3'',
             role = ''school_admin'', schoolId = None, isActive = True, lastLogin = 100200,
             refreshToken = Some (Jwt ''refresh-secret'' ''u3'' 100 2592100) \<rparr>"

definition db_carol :: db where
  "db_carol = \<lparr> users = [carol], admins = [], school_admins = [], schools = [] \<rparr>"

definition eve_admin :: legacy where
  "eve_admin = \<lparr> l_name = Some ''Eve'', l_email = ''eve@x.io'', l_password = ''$2a$adminpw'',
                 l_isDeleted = False \<rparr>"

definition eve_school_admin :: legacy where
  "eve_school_admin = \<lparr> l_name = None, l_email = ''eve@x.io'', l_password = ''$2a$schoolpw'',
                        l_isDeleted = False \<rparr>"


definition db_school_admins :: db where
  "db_school_admins = \<lparr> users = [], admins = [eve_admin\<lparr> l_isDeleted := True \<rparr>],
                        school_admins = [eve_school_admin], schools = [] \<rparr>"

definition ob_body :: onboarding_body where
  "ob_body = \<lparr> ob_schoolName = ''Acme'', ob_board = ''CBSE'', ob_adminName = ''Alice'',
               ob_adminEmail = ''alice@x.io'', ob_adminPhone = ''+15551234'',
               ob_schoolAddress = None, ob_website = None, ob_description = None \<rparr>"

section \<open>Facts about the collections\<close>

lemma write_back_absent: "findById us (uid u) = None \<Longrightarrow> write_back u us = us"
  by (induction us) (auto simp: write_back_def findById_def split: if_splits)

lemma write_back_append_new:
  "findById us (uid u) = None \<Longrightarrow> uid u' = uid u \<Longrightarrow> write_back u' (us @ [u]) = us @ [u']"
  using write_back_absent [of us u'] by (simp add: write_back_def)

lemma findOne_append:
  "findOne (us @ [u]) em =
     (case findOne us em of Some v \<Rightarrow> Some v | None \<Rightarrow> if email u = em then Some u else None)"
  by (induction us) (auto simp: findOne_def)

lemma find_either_None:
  "find (\<lambda>v. uid v = i \<or> email v = em) us = None \<longleftrightarrow>
     findById us i = None \<and> findOne us em = None"
  by (auto simp: find_None_iff findById_def findOne_def)

lemma User_create_fresh:
  assumes "user_valid x n em pw rl" and "findById us newId = None" and "findOne us em = None"
  shows "User_create x now salt newId us n em pw rl =
           Inr (\<lparr> uid = newId, name = trim n, email = em, password = bcrypt_hash x pw salt,
                   role = rl, schoolId = None, isActive = True, lastLogin = now,
                   refreshToken = None \<rparr>,
                us @ [\<lparr> uid = newId, name = trim n, email = em,
                        password = bcrypt_hash x pw salt, role = rl, schoolId = None,
                        isActive = True, lastLogin = now, refreshToken = None \<rparr>])"
  using assms by (simp add: User_create_def find_either_None Let_def)

lemma issue_session_ok:
  assumes "JWT_SECRET e \<noteq> []" and "JWT_REFRESH_SECRET e \<noteq> []"
  shows "issue_session e now code u us =
           (Response code
              (Session (Jwt (JWT_SECRET e) (uid u) (now div 1000) (now div 1000 + access_ttl e))
                 (Jwt (JWT_REFRESH_SECRET e) (uid u) (now div 1000)
                    (now div 1000 + refresh_ttl e))
                 (user_json u)),
            write_back (u\<lparr> refreshToken := Some (Jwt (JWT_REFRESH_SECRET e) (uid u)
                    (now div 1000) (now div 1000 + refresh_ttl e)) \<rparr>) us)"
  using assms
  by (simp add: issue_session_def getSignedJwtToken_def getRefreshToken_def jwt_sign_def
        user_json_def)

lemma findById_uid: "findById us i = Some u \<Longrightarrow> uid u = i"
  by (auto simp: findById_def find_Some_iff)

lemma findById_write_back:
  "findById (write_back u us) i =
     (if i = uid u then (case findById us i of None \<Rightarrow> None | Some v \<Rightarrow> Some u)
      else findById us i)"
  by (induction us) (auto simp: write_back_def findById_def)

lemma save_Inr: "save x sel u us = Inr us' \<Longrightarrow> us' = write_back u us"
  by (auto simp: save_def split: list.splits)





lemma protect_Inl: "protect e now d h = Inl r \<Longrightarrow> status r = 401"
  by (auto simp: protect_def split: authorization.splits option.splits sum.splits)



section \<open>Authorization policy\<close>




text \<open>
  C3. The README documents the variable \<^verbatim>\<open>ENABLE_CRUD_FOR_SCHOOL_ADMIN\<close> ("Allow school
  admins CRUD"), but \<^verbatim>\<open>canPerformCRUD\<close> never reads it: with the variable set to
  \<^verbatim>\<open>true\<close>, the DELETE of a school admin is still refused with status 403.
\<close>

theorem canPerformCRUD_flag_ignored:
  "canPerformCRUD (env0\<lparr> ENABLE_CRUD_FOR_SCHOOL_ADMIN := Some ''true'' \<rparr>)
     \<lparr> req_user = Some alice, params_schoolId = None, body_schoolId = None,
       query_schoolId = None, req_method = ''DELETE'' \<rparr> =
   Respond (Response 403
     (Plain ''Access denied. CRUD operations are restricted to super admins only.''))"
  by (simp add: canPerformCRUD_def alice_def)

section \<open>Request gate and access tokens\<close>

text \<open>
  C2. \<^verbatim>\<open>protect\<close> answers 401 when the user of a valid token is gone, but it never looks
  at \<^verbatim>\<open>isActive\<close>: the deactivated user \<open>dave\<close> passes the gate with a token that was
  issued to him and has not expired, and the handler runs with \<^verbatim>\<open>req.user = dave\<close>.
\<close>

theorem protect_admits_inactive:
  "getSignedJwtToken env0 dave 5000 = Inr (Jwt ''access-secret'' ''u4'' 5 604805) \<and>
   isActive dave = False \<and>
   protect env0 6000 db_dave (Bearer (Some (Jwt ''access-secret'' ''u4'' 5 604805))) = Inr dave \<and>
   protect env0 6000 db_empty (Bearer (Some (Jwt ''access-secret'' ''u4'' 5 604805))) =
     Inl (Response 401 (Error ''User not found''))"
  by (simp add: getSignedJwtToken_def jwt_sign_def access_ttl_def env0_def dave_def
        protect_def jwt_verify_def db_dave_def db_empty_def findById_def)

text \<open>
  C9. With a configured secret and a positive lifetime, the access token issued for a
  user verifies, at the moment of issue, to the id of that user (and \<^verbatim>\<open>protect\<close> then
  lets the stored user through); once the lifetime has elapsed, \<^verbatim>\<open>jwt.verify\<close> fails
  with \<^verbatim>\<open>TokenExpiredError\<close>, which \<^verbatim>\<open>protect\<close> turns into its 401 response.
\<close>

theorem access_token_verify:
  assumes "JWT_SECRET e \<noteq> []" and "0 < access_ttl e"
  shows "\<exists>t. getSignedJwtToken e u now = Inr t \<and>
           jwt_verify t (JWT_SECRET e) now = Inr (uid u) \<and>
           (findById (users d) (uid u) = Some u \<longrightarrow> protect e now d (Bearer (Some t)) = Inr u) \<and>
           (\<forall>later. now div 1000 + access_ttl e \<le> later div 1000 \<longrightarrow>
              jwt_verify t (JWT_SECRET e) later = Inl TokenExpiredError \<and>
              protect e later d (Bearer (Some t)) =
                Inl (Response 401 (Error ''Not authorized, token failed'')))"
  using assms
  by (simp add: getSignedJwtToken_def jwt_sign_def jwt_verify_def protect_def)

theorem access_token_verify_witness:
  "JWT_SECRET env0 \<noteq> [] \<and> 0 < access_ttl env0 \<and>
   (\<exists>t. getSignedJwtToken env0 alice 5000 = Inr t \<and>
      jwt_verify t (JWT_SECRET env0) 5000 = Inr (uid alice) \<and>
      protect env0 5000 db_alice (Bearer (Some t)) = Inr alice \<and>
      jwt_verify t (JWT_SECRET env0) 604805000 = Inl TokenExpiredError)"
  using access_token_verify [where e = env0 and u = alice and d = db_alice and now = 5000]
  by (auto simp: env0_def access_ttl_def db_alice_def findById_def)

section \<open>Registration\<close>

text \<open>
  C7. Registration with \<^verbatim>\<open>target = 'admins'\<close> checks the email against the admins
  collection only. For an email that a user already has, \<^verbatim>\<open>User.create\<close> then breaks
  on the unique index and the route answers 500 "Server error", where the same request
  with the default target answers 400 "Email already registered". Nothing is written in
  either case.
\<close>

theorem register_admins_target_taken_email:
  "findOne (users db_alice) ''alice@x.io'' = Some alice \<and>
   register ext0 env0 0 7 ''n1'' db_alice (reg_body None (Some ''admins'')) =
     (Response 500 (Message ''Server error''), db_alice) \<and>
   register ext0 env0 0 7 ''n1'' db_alice (reg_body None None) =
     (Response 400 (Message ''Email already registered''), db_alice)"
  by (simp add: register_def reg_body_def ext0_def db_alice_def alice_def findOne_def
        User_create_def user_valid_def trim_def is_space_def Let_def)

text \<open>
  C10. Registration takes the role from the body and needs no credential: for a request
  that passes the validators of the route and of the user schema, with an email and a
  generated id that no user has (and an email that no admin has), and with both secrets
  configured, the answer is 201 and exactly one user is added, found under the email,
  whose role is \<^verbatim>\<open>super_admin\<close> when the body says so and \<^verbatim>\<open>school_admin\<close> when the
  body has no role.
\<close>

theorem register_role_from_body:
  assumes "2 \<le> length (rb_name b)" and "isEmail x (rb_email b)"
    and "6 \<le> length (rb_password b)"
    and "rb_target b \<in> set [None, Some ''users'', Some ''admins'']"
    and "rb_role b \<in> set [None, Some ''super_admin'']"
    and "trim (rb_name b) \<noteq> []" and "length (trim (rb_name b)) \<le> 50"
    and "rb_email b \<noteq> []" and "email_match x (rb_email b)"
    and "findOne (users d) (rb_email b) = None"
    and "find (\<lambda>a. l_email a = rb_email b) (admins d) = None"
    and "findById (users d) newId = None"
    and "JWT_SECRET e \<noteq> []" and "JWT_REFRESH_SECRET e \<noteq> []"
  shows "\<exists>u. status (fst (register x e now salt newId d b)) = 201 \<and>
           users (snd (register x e now salt newId d b)) = users d @ [u] \<and>
           findOne (users (snd (register x e now salt newId d b))) (rb_email b) = Some u \<and>
           role u = (if rb_role b = Some ''super_admin'' then ''super_admin''
                     else ''school_admin'')"
proof -
  define rl where "rl = (case rb_role b of None \<Rightarrow> ''school_admin'' | Some r \<Rightarrow> r)"
  have rl: "rl = (if rb_role b = Some ''super_admin'' then ''super_admin'' else ''school_admin'')"
    using assms(5) by (auto simp: rl_def)
  have valid: "user_valid x (rb_name b) (rb_email b) (rb_password b) rl"
    using assms rl by (auto simp: user_valid_def)
  note create = User_create_fresh [OF valid assms(12) assms(10), of now salt]
  show ?thesis
    using assms rl create
    by (auto simp: register_def rl_def [symmetric] Let_def issue_session_ok write_back_append_new
          findOne_append split: prod.splits)
qed

theorem register_role_from_body_witness:
  "(\<exists>u. status (fst (register ext0 env0 0 7 ''n1'' db_empty
            (reg_body (Some ''super_admin'') None))) = 201 \<and>
      users (snd (register ext0 env0 0 7 ''n1'' db_empty
            (reg_body (Some ''super_admin'') None))) = [u] \<and>
      role u = ''super_admin'') \<and>
   (\<exists>u. users (snd (register ext0 env0 0 7 ''n1'' db_empty (reg_body None None))) = [u] \<and>
      role u = ''school_admin'')"
  using register_role_from_body [where b = "reg_body (Some ''super_admin'') None" and x = ext0
      and d = db_empty and newId = "''n1''" and e = env0 and now = 0 and salt = 7]
    register_role_from_body [where b = "reg_body None None" and x = ext0
      and d = db_empty and newId = "''n1''" and e = env0 and now = 0 and salt = 7]
  by (auto simp: reg_body_def ext0_def db_empty_def env0_def trim_def is_space_def
        findOne_def findById_def)

section \<open>Refresh rotation\<close>

text \<open>
  C4, as the claim states it. A refresh token issued to \<open>carol\<close> at second 100 and rotated
  within the same second: the token that the rotation signs is the very same token, so it
  stays the stored one, and presenting it again after the rotation succeeds.
\<close>

theorem refresh_same_second_replay:
  "getRefreshToken env0 carol 100200 = Inr (Jwt ''refresh-secret'' ''u3'' 100 2592100) \<and>
   refresh ext0 env0 100700 db_carol (Some (Jwt ''refresh-secret'' ''u3'' 100 2592100)) =
     (Response 200 (Tokens (Jwt ''access-secret'' ''u3'' 100 604900)
        (Jwt ''refresh-secret'' ''u3'' 100 2592100)), db_carol) \<and>
   fst (refresh ext0 env0 900000
          (snd (refresh ext0 env0 100700 db_carol
                  (Some (Jwt ''refresh-secret'' ''u3'' 100 2592100))))
          (Some (Jwt ''refresh-secret'' ''u3'' 100 2592100))) =
     Response 200 (Tokens (Jwt ''access-secret'' ''u3'' 900 605700)
        (Jwt ''refresh-secret'' ''u3'' 900 2592900))"
  by (simp add: refresh_def getRefreshToken_def getSignedJwtToken_def jwt_sign_def
        jwt_verify_def env0_def ext0_def carol_def db_carol_def findById_def save_def
        write_back_def user_errors_def name_errors_def email_errors_def role_errors_def
        access_ttl_def refresh_ttl_def)

text \<open>
  C4, amended. A rotation succeeds only for the token that is stored on its user. When the
  rotation signs a refresh token different from the presented one, which is the case
  whenever it happens in another clock second than the one the presented token was issued
  in, presenting the old token again is refused and changes nothing: with 401 "Invalid
  refresh token" while the old token has not expired, with 401 "Refresh token expired"
  afterwards.
\<close>

theorem refresh_rotation:
  assumes "refresh x e now d (Some t) = (Response 200 (Tokens nt nrt), d')"
  shows "(\<exists>u. findById (users d) (t_id t) = Some u \<and> refreshToken u = Some t) \<and>
         (t_iat t \<noteq> now div 1000 \<longrightarrow> nrt \<noteq> t) \<and>
         (nrt \<noteq> t \<longrightarrow>
            refresh x e later d' (Some t) =
              (if t_exp t \<le> later div 1000 then Response 401 (Error ''Refresh token expired'')
               else Response 401 (Error ''Invalid refresh token''), d'))"
proof (cases t)
  case (Opaque s)
  with assms show ?thesis
    by (simp add: refresh_def jwt_verify_def split: if_splits)
next
  case (Jwt k i iat ex)
  from assms Jwt have k: "k = JWT_REFRESH_SECRET e" and ne: "JWT_REFRESH_SECRET e \<noteq> []"
    and live: "\<not> ex \<le> now div 1000"
    by (auto simp: refresh_def jwt_verify_def split: if_splits)
  from assms Jwt k ne live obtain u where u: "findById (users d) i = Some u"
    and stored: "refreshToken u = Some t"
    by (auto simp: refresh_def jwt_verify_def split: option.splits if_splits)
  have uid: "uid u = i" using u by (rule findById_uid)
  from assms Jwt k ne live u stored
  have nrt: "nrt = Jwt (JWT_REFRESH_SECRET e) i (now div 1000) (now div 1000 + refresh_ttl e)"
    and d': "d' = d\<lparr> users := write_back (u\<lparr> refreshToken := Some nrt \<rparr>) (users d) \<rparr>"
    by (auto simp: refresh_def jwt_verify_def getSignedJwtToken_def getRefreshToken_def
          jwt_sign_def uid dest: save_Inr split: if_splits sum.splits)
  have found: "findById (users d') i = Some (u\<lparr> refreshToken := Some nrt \<rparr>)"
    using u uid by (simp add: d' findById_write_back)
  show ?thesis
    using Jwt k ne u stored nrt found
    by (auto simp: refresh_def jwt_verify_def)
qed

theorem refresh_rotation_witness:
  "refresh ext0 env0 900000 db_carol (Some (Jwt ''refresh-secret'' ''u3'' 100 2592100)) =
     (Response 200 (Tokens (Jwt ''access-secret'' ''u3'' 900 605700)
        (Jwt ''refresh-secret'' ''u3'' 900 2592900)),
      db_carol\<lparr> users := [carol\<lparr> refreshToken :=
        Some (Jwt ''refresh-secret'' ''u3'' 900 2592900) \<rparr>] \<rparr>) \<and>
   refresh ext0 env0 950000
     (db_carol\<lparr> users := [carol\<lparr> refreshToken :=
        Some (Jwt ''refresh-secret'' ''u3'' 900 2592900) \<rparr>] \<rparr>)
     (Some (Jwt ''refresh-secret'' ''u3'' 100 2592100)) =
     (Response 401 (Error ''Invalid refresh token''),
      db_carol\<lparr> users := [carol\<lparr> refreshToken :=
        Some (Jwt ''refresh-secret'' ''u3'' 900 2592900) \<rparr>] \<rparr>)"
proof -
  have h: "refresh ext0 env0 900000 db_carol (Some (Jwt ''refresh-secret'' ''u3'' 100 2592100)) =
     (Response 200 (Tokens (Jwt ''access-secret'' ''u3'' 900 605700)
        (Jwt ''refresh-secret'' ''u3'' 900 2592900)),
      db_carol\<lparr> users := [carol\<lparr> refreshToken :=
        Some (Jwt ''refresh-secret'' ''u3'' 900 2592900) \<rparr>] \<rparr>)"
    by (simp add: refresh_def getRefreshToken_def getSignedJwtToken_def jwt_sign_def
        jwt_verify_def env0_def ext0_def carol_def db_carol_def findById_def save_def
        write_back_def user_errors_def name_errors_def email_errors_def role_errors_def
        access_ttl_def refresh_ttl_def)
  show ?thesis
    using h refresh_rotation [OF h, of 950000] by simp
qed

section \<open>Login\<close>




text \<open>
  The other schedule, on the same login: the hash left running by the first save has
  finished when the second save begins, and the password that the second save writes is
  a hash of a hash of the hash of the record.
\<close>

lemma login_detached_hash_written:
  "map password (users (snd (login ext0 env0 0 7 (Some (1, 2)) ''n1'' db_school_admins
      ''eve@x.io'' ''schoolpw''))) = [''$2a$$2a$$2a$schoolpw'']"
  by (simp add: login_def materialize_def upsert_def finish_login_def save_def write_back_def
        user_errors_def name_errors_def email_errors_def password_errors_def role_errors_def
        getSignedJwtToken_def getRefreshToken_def jwt_sign_def find_legacy_def findOne_def
        findById_def is_env_super_admin_def name_or_def trim_def is_space_def
        db_school_admins_def eve_admin_def eve_school_admin_def ext0_def env0_def Let_def)

text \<open>
  A legacy record whose name is blank: the upsert writes the user, the first save refuses
  the document, the answer is 500 and the user stays, without a session.
\<close>

lemma login_invalid_record_materialized:
  "status (fst (login ext0 env0 0 7 None ''n1''
      (db_school_admins\<lparr> school_admins := [eve_school_admin\<lparr> l_name := Some ''  '' \<rparr>] \<rparr>)
      ''eve@x.io'' ''schoolpw'')) = 500 \<and>
   map refreshToken (users (snd (login ext0 env0 0 7 None ''n1''
      (db_school_admins\<lparr> school_admins := [eve_school_admin\<lparr> l_name := Some ''  '' \<rparr>] \<rparr>)
      ''eve@x.io'' ''schoolpw''))) = [None]"
  by (simp add: login_def materialize_def upsert_def finish_login_def save_def
        user_errors_def name_errors_def find_legacy_def findOne_def findById_def
        is_env_super_admin_def name_or_def trim_def is_space_def db_school_admins_def
        eve_admin_def eve_school_admin_def ext0_def env0_def Let_def)




section \<open>Onboarding\<close>

text \<open>
  C8, as the claim states it. \<open>alice\<close> already has the school \<^verbatim>\<open>t1\<close>; a further onboarding
  creates the school \<^verbatim>\<open>t9\<close> and stores it on her.
\<close>

theorem onboarding_overwrites_schoolId:
  "schoolId alice = Some ''t1'' \<and>
   fst (onboarding ext0 env0 6000 ''t9'' db_alice
          (Bearer (Some (Jwt ''access-secret'' ''u1'' 5 604805))) ob_body) =
     Response 200 (Profile \<lparr> v_id = ''u1'', v_name = ''Alice'', v_email = ''alice@x.io'',
       v_role = ''school_admin'', v_schoolId = Some ''t9'' \<rparr>) \<and>
   users (snd (onboarding ext0 env0 6000 ''t9'' db_alice
          (Bearer (Some (Jwt ''access-secret'' ''u1'' 5 604805))) ob_body)) =
     [alice\<lparr> schoolId := Some ''t9'' \<rparr>]"
  by (simp add: onboarding_def protect_def jwt_verify_def School_create_def school_doc_def
        findById_def save_def write_back_def user_errors_def name_errors_def
        email_errors_def role_errors_def user_json_def trim_def is_space_def safeBoard_def
        sanitizedPhone_def ob_body_def db_alice_def alice_def ext0_def env0_def Let_def)

text \<open>
  C8, amended. Every onboarding that answers 200 has created a school and has set the
  \<^verbatim>\<open>schoolId\<close> of the authenticated user to the id of that new school, whether or not
  the user had a school before.
\<close>

theorem onboarding_sets_schoolId:
  assumes "onboarding x e now newId d h b = (Response 200 bd, d')"
  shows "\<exists>u0 u s. protect e now d h = Inr u0 \<and> schools d' = schools d @ [s] \<and> s_id s = newId \<and>
           findById (users d') (uid u0) = Some u \<and> schoolId u = Some newId \<and>
           bd = Profile (user_json u)"
proof -
  from assms obtain u0 where p: "protect e now d h = Inr u0"
    by (cases "protect e now d h") (auto simp: onboarding_def dest: protect_Inl)
  note run = assms [unfolded onboarding_def p, simplified]
  from run obtain s ss where c: "School_create x newId (schools d) b = Inr (s, ss)"
    by (cases "School_create x newId (schools d) b")
      (auto split: if_splits db_error.splits)
  then have s: "ss = schools d @ [s]" "s_id s = newId"
    by (auto simp: School_create_def Let_def school_doc_def split: list.splits if_splits)
  from run c obtain v where v: "findById (users d) (uid u0) = Some v"
    by (cases "findById (users d) (uid u0)") (auto simp: Let_def split: if_splits)
  have uv: "uid v = uid u0" using v by (rule findById_uid)
  show ?thesis
    using run p c s v uv
    by (auto simp: Let_def findById_write_back dest!: save_Inr
          split: if_splits sum.splits db_error.splits)
qed

theorem onboarding_sets_schoolId_witness:
  "\<exists>u0 u s. protect env0 6000 db_alice (Bearer (Some (Jwt ''access-secret'' ''u1'' 5 604805))) =
       Inr u0 \<and>
     schools (snd (onboarding ext0 env0 6000 ''t9'' db_alice
          (Bearer (Some (Jwt ''access-secret'' ''u1'' 5 604805))) ob_body)) = [s] \<and>
     s_id s = ''t9'' \<and>
     findById (users (snd (onboarding ext0 env0 6000 ''t9'' db_alice
          (Bearer (Some (Jwt ''access-secret'' ''u1'' 5 604805))) ob_body))) (uid u0) = Some u \<and>
     schoolId u = Some ''t9''"
proof -
  have h: "onboarding ext0 env0 6000 ''t9'' db_alice
          (Bearer (Some (Jwt ''access-secret'' ''u1'' 5 604805))) ob_body =
     (Response 200 (Profile \<lparr> v_id = ''u1'', v_name = ''Alice'', v_email = ''alice@x.io'',
        v_role = ''school_admin'', v_schoolId = Some ''t9'' \<rparr>),
      snd (onboarding ext0 env0 6000 ''t9'' db_alice
          (Bearer (Some (Jwt ''access-secret'' ''u1'' 5 604805))) ob_body))"
    by (simp add: onboarding_def protect_def jwt_verify_def School_create_def school_doc_def
        findById_def save_def write_back_def user_errors_def name_errors_def
        email_errors_def role_errors_def user_json_def trim_def is_space_def safeBoard_def
        sanitizedPhone_def ob_body_def db_alice_def alice_def ext0_def env0_def Let_def)
  show ?thesis
    using onboarding_sets_schoolId [OF h] by (auto simp: db_alice_def)
qed

end
